theory Spec2Isabelle
  imports Complex_Main "HOL-Library.Sublist"
begin

section \<open>The pyIB2d frontend: reading \<open>input2d\<close> and handing it to the driver\<close>

text \<open>
  The development embeds \<^verbatim>\<open>pyIB2d.py\<close>: the extractor
  \<^verbatim>\<open>give_Me_input2d_Parameters\<close>, the builder \<^verbatim>\<open>main2d\<close> and the
  command-line entry. Conventions:
  \<^item> a Python \<^verbatim>\<open>str\<close> is a \<open>string\<close>, each \<open>char\<close> standing for the code point of
    the same number (so the model covers text whose code points are below 256);
  \<^item> a file is the list of its lines, as iterating over the open file yields them;
  \<^item> the file system is a map from path to file;
  \<^item> an exception is a value of \<open>py_error\<close>, a function that can raise returns
    \<open>py_error + 'a\<close>; the names the specification uses are: StructureReferenceMissing
    for \<open>UnboundLocalError\<close> (the unassigned \<^verbatim>\<open>struct_name\<close>), IndexOutOfRange for
    \<open>IndexError\<close>, ParameterFormatError for \<open>ValueError\<close>.
\<close>

subsection \<open>Exceptions\<close>

datatype py_error = OSError | ValueError | IndexError | UnboundLocalError | OverflowError

definition bind_err :: "py_error + 'a \<Rightarrow> ('a \<Rightarrow> py_error + 'b) \<Rightarrow> py_error + 'b" where
  "bind_err m f = (case m of Inl e \<Rightarrow> Inl e | Inr x \<Rightarrow> f x)"

subsection \<open>Strings\<close>

text \<open>\<^verbatim>\<open>sub in s\<close>: \<open>sub\<close> starts at some position of \<open>s\<close>.\<close>

fun py_in :: "string \<Rightarrow> string \<Rightarrow> bool" where
  "py_in sub [] = (sub = [])"
| "py_in sub (c # s) = (prefix sub (c # s) \<or> py_in sub s)"

text \<open>\<^verbatim>\<open>s.find(sub)\<close>: the lowest position where \<open>sub\<close> starts, \<open>-1\<close> when there is none.\<close>

fun find_from :: "nat \<Rightarrow> string \<Rightarrow> string \<Rightarrow> int" where
  "find_from i sub [] = (if sub = [] then int i else - 1)"
| "find_from i sub (c # s) = (if prefix sub (c # s) then int i else find_from (Suc i) sub s)"

definition py_find :: "string \<Rightarrow> string \<Rightarrow> int" where
  "py_find s sub = find_from 0 sub s"

text \<open>
  \<^verbatim>\<open>str.isspace\<close> on the code points below 256: tab to carriage return, the four
  separators 28 to 31, the space, NEL (133) and the no-break space (160).
\<close>

definition py_isspace :: "char \<Rightarrow> bool" where
  "py_isspace c = (let n = (of_char c :: nat) in
     (9 \<le> n \<and> n \<le> 13) \<or> (28 \<le> n \<and> n \<le> 32) \<or> n = 133 \<or> n = 160)"

text \<open>\<^verbatim>\<open>s.split()\<close>: the maximal runs of characters that are not whitespace.\<close>

fun split_words :: "string \<Rightarrow> string \<Rightarrow> string list" where
  "split_words w [] = (if w = [] then [] else [w])"
| "split_words w (c # s) =
     (if py_isspace c then (if w = [] then split_words [] s else w # split_words [] s)
      else split_words (w @ [c]) s)"

definition py_split :: "string \<Rightarrow> string list" where
  "py_split s = split_words [] s"

text \<open>\<^verbatim>\<open>s.split(d)\<close> for a one-character delimiter: the fields between the delimiters.\<close>

fun split_fields :: "char \<Rightarrow> string \<Rightarrow> string \<Rightarrow> string list" where
  "split_fields d w [] = [w]"
| "split_fields d w (c # s) =
     (if c = d then w # split_fields d [] s else split_fields d (w @ [c]) s)"

definition py_split_on :: "char \<Rightarrow> string \<Rightarrow> string list" where
  "py_split_on d s = split_fields d [] s"

text \<open>\<^verbatim>\<open>s.strip()\<close> and \<^verbatim>\<open>s.strip('\r\n')\<close>.\<close>

definition py_strip :: "string \<Rightarrow> string" where
  "py_strip s = rev (dropWhile py_isspace (rev (dropWhile py_isspace s)))"

definition is_crlf :: "char \<Rightarrow> bool" where
  "is_crlf c = (c = CHR 0x0D \<or> c = CHR 0x0A)"

definition strip_crlf :: "string \<Rightarrow> string" where
  "strip_crlf s = rev (dropWhile is_crlf (rev (dropWhile is_crlf s)))"

subsection \<open>Paths (\<^verbatim>\<open>posixpath\<close>)\<close>

text \<open>
  \<^verbatim>\<open>os.path.join(a, b)\<close>: an absolute \<open>b\<close> replaces \<open>a\<close>; otherwise \<open>b\<close> is appended,
  after a separator unless \<open>a\<close> is empty or ends with one.
\<close>

definition os_path_join :: "string \<Rightarrow> string \<Rightarrow> string" where
  "os_path_join a b =
     (if prefix ''/'' b then b
      else if a = [] \<or> suffix ''/'' a then a @ b
      else a @ ''/'' @ b)"

text \<open>
  \<^verbatim>\<open>os.path.split(p)\<close>: cut after the last separator; the head loses its trailing
  separators unless it consists of separators only.
\<close>

definition os_path_split :: "string \<Rightarrow> string \<times> string" where
  "os_path_split p =
     (let i = length p - length (takeWhile (\<lambda>c. c \<noteq> CHR ''/'') (rev p));
          head = take i p;
          tail = drop i p
      in (if head \<noteq> [] \<and> head \<noteq> replicate (length head) CHR ''/''
          then rev (dropWhile (\<lambda>c. c = CHR ''/'') (rev head)) else head,
          tail))"

subsection \<open>The string-reference pass of \<^verbatim>\<open>give_Me_input2d_Parameters\<close>\<close>

text \<open>
  Lines 76 and 77 of the source, the test a line must pass:
  \<^verbatim>\<open>('string_name' in line) and line.find('string_name') < line.find('%')\<close>.
\<close>

definition is_reference_line :: "string \<Rightarrow> bool" where
  "is_reference_line line =
     (py_in ''string_name'' line \<and> py_find line ''string_name'' < py_find line ''%'')"

text \<open>
  Lines 81 to 84, the loop over the words of the chosen line:
  \<^verbatim>\<open>for n, word in enumerate(words): if word == '=': struct_name = join(fpath[0], words[n+1]); break\<close>.
  The result is \<open>None\<close> while \<^verbatim>\<open>struct_name\<close> is unassigned; \<^verbatim>\<open>words[n+1]\<close> raises
  when \<^verbatim>\<open>=\<close> is the last word.
\<close>

fun word_after_equals :: "string \<Rightarrow> string list \<Rightarrow> py_error + string option" where
  "word_after_equals dir [] = Inr None"
| "word_after_equals dir (word # rest) =
     (if word = ''='' then
        (case rest of [] \<Rightarrow> Inl IndexError | nxt # _ \<Rightarrow> Inr (Some (os_path_join dir nxt)))
      else word_after_equals dir rest)"

text \<open>
  Lines 74 to 85, the loop over the lines: the first line that passes the test is
  split into words and searched, and the loop ends there.
\<close>

fun find_struct_name :: "string \<Rightarrow> string list \<Rightarrow> py_error + string option" where
  "find_struct_name dir [] = Inr None"
| "find_struct_name dir (line # rest) =
     (if is_reference_line line then word_after_equals dir (py_split line)
      else find_struct_name dir rest)"

subsection \<open>Floating-point values\<close>

text \<open>
  A \<^verbatim>\<open>numpy.float64\<close> is a finite number, an infinity or a NaN. Finite values are
  modelled by the real numbers they denote and arithmetic on them is exact: rounding,
  overflow to infinity and the sign of a zero or of an infinity are outside the model.
  The infinities and NaN are kept because the program behaves differently on them:
  \<^verbatim>\<open>int\<close> raises, and a division by zero returns one of them (with a warning, not an
  exception).
\<close>

datatype f8 = Num real | Infty | NaN

text \<open>\<^verbatim>\<open>int(x)\<close>: truncation toward zero; \<^verbatim>\<open>OverflowError\<close> on an infinity,
  \<^verbatim>\<open>ValueError\<close> on a NaN.\<close>

definition trunc0 :: "real \<Rightarrow> int" where
  "trunc0 r = (if 0 \<le> r then \<lfloor>r\<rfloor> else \<lceil>r\<rceil>)"

fun py_int :: "f8 \<Rightarrow> py_error + int" where
  "py_int (Num r) = Inr (trunc0 r)"
| "py_int Infty = Inl OverflowError"
| "py_int NaN = Inl ValueError"

text \<open>\<^verbatim>\<open>x / y\<close> on \<^verbatim>\<open>numpy.float64\<close>.\<close>

fun f8_div :: "f8 \<Rightarrow> f8 \<Rightarrow> f8" where
  "f8_div (Num a) (Num b) = (if b = 0 then (if a = 0 then NaN else Infty) else Num (a / b))"
| "f8_div (Num a) Infty = Num 0"
| "f8_div Infty (Num b) = Infty"
| "f8_div Infty Infty = NaN"
| "f8_div NaN y = NaN"
| "f8_div x NaN = NaN"

text \<open>The truth value of a Python \<^verbatim>\<open>int\<close>, as \<^verbatim>\<open>if flag:\<close> reads it.\<close>

definition py_bool :: "int \<Rightarrow> bool" where
  "py_bool n = (n \<noteq> 0)"

text \<open>\<^verbatim>\<open>xs[i]\<close> for an index that is not negative.\<close>

definition item :: "'a list \<Rightarrow> nat \<Rightarrow> py_error + 'a" where
  "item xs i = (if i < length xs then Inr (xs ! i) else Inl IndexError)"

subsection \<open>Reading a decimal literal\<close>

text \<open>
  \<^verbatim>\<open>float(s)\<close> on the spellings a parameter file uses: surrounding whitespace, a sign,
  digits with an optional fraction and an optional exponent, and the words
  \<^verbatim>\<open>inf\<close>, \<^verbatim>\<open>infinity\<close> and \<^verbatim>\<open>nan\<close>. The conversion belongs to numpy, and accepts a
  few more spellings depending on its version; the extractor below therefore takes
  the conversion as a parameter, and \<open>py_float\<close> is the instance used on concrete
  files.
\<close>

definition digit_of :: "char \<Rightarrow> nat option" where
  "digit_of c = (let n = (of_char c :: nat) in if 48 \<le> n \<and> n \<le> 57 then Some (n - 48) else None)"

fun digits_value :: "nat \<Rightarrow> string \<Rightarrow> nat option" where
  "digits_value acc [] = Some acc"
| "digits_value acc (c # s) =
     (case digit_of c of None \<Rightarrow> None | Some d \<Rightarrow> digits_value (10 * acc + d) s)"

definition lower_ascii :: "char \<Rightarrow> char" where
  "lower_ascii c = (let n = (of_char c :: nat) in if 65 \<le> n \<and> n \<le> 90 then char_of (n + 32) else c)"

definition take_sign :: "string \<Rightarrow> bool \<times> string" where
  "take_sign s =
     (case s of [] \<Rightarrow> (False, [])
      | c # r \<Rightarrow> if c = CHR ''-'' then (True, r) else if c = CHR ''+'' then (False, r) else (False, s))"

definition scale10 :: "int \<Rightarrow> int \<Rightarrow> real" where
  "scale10 m e = (if 0 \<le> e then of_int m * 10 ^ nat e else of_int m / 10 ^ nat (- e))"

definition is_exp_mark :: "char \<Rightarrow> bool" where
  "is_exp_mark c = (c = CHR ''e'' \<or> c = CHR ''E'')"

definition exponent_value :: "string \<Rightarrow> int option" where
  "exponent_value s =
     (case s of [] \<Rightarrow> Some 0
      | _ # e \<Rightarrow>
          (let (neg, ds) = take_sign e in
           if ds = [] then None
           else (case digits_value 0 ds of None \<Rightarrow> None
                 | Some n \<Rightarrow> Some (if neg then - int n else int n))))"

definition decimal_value :: "string \<Rightarrow> real option" where
  "decimal_value s =
     (let mant = takeWhile (\<lambda>c. \<not> is_exp_mark c) s;
          ip = takeWhile (\<lambda>c. c \<noteq> CHR ''.'') mant;
          fd = drop 1 (dropWhile (\<lambda>c. c \<noteq> CHR ''.'') mant)
      in if ip @ fd = [] then None
         else (case digits_value 0 (ip @ fd) of None \<Rightarrow> None
               | Some m \<Rightarrow>
                   (case exponent_value (dropWhile (\<lambda>c. \<not> is_exp_mark c) s) of None \<Rightarrow> None
                    | Some e \<Rightarrow> Some (scale10 (int m) (e - int (length fd))))))"

definition py_float :: "string \<Rightarrow> py_error + f8" where
  "py_float s =
     (let (neg, body) = take_sign (py_strip s);
          word = map lower_ascii body
      in if word = ''inf'' \<or> word = ''infinity'' then Inr Infty
         else if word = ''nan'' then Inr NaN
         else (case decimal_value body of None \<Rightarrow> Inl ValueError
               | Some r \<Rightarrow> Inr (Num (if neg then - r else r))))"

subsection \<open>The numeric pass: \<^verbatim>\<open>np.loadtxt\<close> as line 68 calls it\<close>

text \<open>
  \<^verbatim>\<open>comments=('%','string_name')\<close>: a line is cut where the first of the two markers
  starts.
\<close>

fun before_comment :: "string \<Rightarrow> string" where
  "before_comment [] = []"
| "before_comment (c # s) =
     (if prefix ''%'' (c # s) \<or> prefix ''string_name'' (c # s) then []
      else c # before_comment s)"

text \<open>
  What is left of the line, without its line terminator, is skipped when empty;
  otherwise \<^verbatim>\<open>delimiter='='\<close> splits it into the two columns of the \<^verbatim>\<open>dtype\<close>, the name
  (\<^verbatim>\<open>S25\<close>, any text) and the value (\<^verbatim>\<open>f8\<close>, converted by \<open>conv\<close>). With \<^verbatim>\<open>unpack=True\<close> the
  call returns the columns; \<open>np_loadtxt\<close> is the column of values, the only one the
  program uses. A row that has not two columns, or whose value does not convert,
  raises. (For a file with a single row numpy returns an array without dimension, on
  which every index raises \<^verbatim>\<open>IndexError\<close>; \<^verbatim>\<open>main2d\<close> reads the values by index only
  and needs 35 of them, so the list of one value behaves the same.)
\<close>

fun np_loadtxt :: "(string \<Rightarrow> py_error + f8) \<Rightarrow> string list \<Rightarrow> py_error + f8 list" where
  "np_loadtxt conv [] = Inr []"
| "np_loadtxt conv (line # rest) =
     (let row = strip_crlf (before_comment line) in
      if row = [] then np_loadtxt conv rest
      else (case py_split_on CHR ''='' row of
              [name, val] \<Rightarrow>
                bind_err (conv val) (\<lambda>v.
                bind_err (np_loadtxt conv rest) (\<lambda>vs. Inr (v # vs)))
            | _ \<Rightarrow> Inl ValueError))"

subsection \<open>\<^verbatim>\<open>give_Me_input2d_Parameters\<close>\<close>

text \<open>
  The file is opened twice, by \<^verbatim>\<open>np.loadtxt\<close> and by \<^verbatim>\<open>open\<close>; a missing file
  raises in the first. The function returns \<^verbatim>\<open>(params, struct_name)\<close>, and reading a
  \<^verbatim>\<open>struct_name\<close> that no line assigned raises \<^verbatim>\<open>UnboundLocalError\<close>.
\<close>

definition give_Me_input2d_Parameters ::
  "(string \<Rightarrow> py_error + f8) \<Rightarrow> (string \<rightharpoonup> string list) \<Rightarrow> string \<times> string
     \<Rightarrow> py_error + (f8 list \<times> string)" where
  "give_Me_input2d_Parameters conv fs fpath =
     (let filename = os_path_join (fst fpath) (snd fpath) in
      case fs filename of
        None \<Rightarrow> Inl OSError
      | Some lines \<Rightarrow>
          bind_err (np_loadtxt conv lines) (\<lambda>params.
          bind_err (find_struct_name (fst fpath) lines) (\<lambda>found.
            case found of
              None \<Rightarrow> Inl UnboundLocalError
            | Some struct_name \<Rightarrow> Inr (params, struct_name))))"

subsection \<open>\<^verbatim>\<open>main2d\<close>: from the parameter vector to the driver's arguments\<close>

text \<open>The two dictionaries, a field for each key, in the order the source assigns them.\<close>

record grid_Info =
  Nx :: int
  Ny :: int
  Lx :: f8
  Ly :: f8
  dx :: f8
  dy :: f8
  supp :: f8
  pDump :: f8
  pMatplotlib :: int
  lagPlot :: int
  velPlot :: int
  vortPlot :: int
  uMagPlot :: int
  pressPlot :: int

record model_Info =
  springs :: int
  update_springs :: int
  target_pts :: int
  update_target_pts :: int
  beams :: int
  update_beams :: int
  muscles :: int
  hill_3_muscles :: int
  arb_ext_force :: int
  tracers :: int
  mass :: int
  gravity :: int
  xG :: f8
  yG :: f8
  porous :: int
  concentration :: int
  electrophysiology :: int
  damped_springs :: int
  update_D_Springs :: int

text \<open>
  What \<^verbatim>\<open>main2d\<close> passes to \<^verbatim>\<open>Driver.main\<close> on line 163, in the order of the call: the
  configuration the run is started with.
\<close>

record driver_args =
  struct_name :: string
  mu :: f8
  rho :: f8
  grid :: grid_Info
  dt :: f8
  T_final :: f8
  model :: model_Info

text \<open>\<^verbatim>\<open>int(params[i])\<close> and \<^verbatim>\<open>params[i]/params[j]\<close>.\<close>

definition int_item :: "f8 list \<Rightarrow> nat \<Rightarrow> py_error + int" where
  "int_item params i = bind_err (item params i) py_int"

definition div_items :: "f8 list \<Rightarrow> nat \<Rightarrow> nat \<Rightarrow> py_error + f8" where
  "div_items params i j =
     bind_err (item params i) (\<lambda>a. bind_err (item params j) (\<lambda>b. Inr (f8_div a b)))"

text \<open>Lines 108 to 127.\<close>

definition build_grid_Info :: "f8 list \<Rightarrow> py_error + grid_Info" where
  "build_grid_Info params =
     bind_err (int_item params 4) (\<lambda>v_Nx.
     bind_err (int_item params 5) (\<lambda>v_Ny.
     bind_err (item params 6) (\<lambda>v_Lx.
     bind_err (item params 7) (\<lambda>v_Ly.
     bind_err (div_items params 6 4) (\<lambda>v_dx.
     bind_err (div_items params 7 5) (\<lambda>v_dy.
     bind_err (item params 8) (\<lambda>v_supp.
     bind_err (item params 28) (\<lambda>v_pDump.
     bind_err (int_item params 29) (\<lambda>v_pMatplotlib.
     bind_err (int_item params 30) (\<lambda>v_lagPlot.
     bind_err (int_item params 31) (\<lambda>v_velPlot.
     bind_err (int_item params 32) (\<lambda>v_vortPlot.
     bind_err (int_item params 33) (\<lambda>v_uMagPlot.
     bind_err (int_item params 34) (\<lambda>v_pressPlot.
       Inr \<lparr>Nx = v_Nx, Ny = v_Ny, Lx = v_Lx, Ly = v_Ly, dx = v_dx, dy = v_dy,
            supp = v_supp, pDump = v_pDump, pMatplotlib = v_pMatplotlib,
            lagPlot = v_lagPlot, velPlot = v_velPlot, vortPlot = v_vortPlot,
            uMagPlot = v_uMagPlot, pressPlot = v_pressPlot\<rparr>))))))))))))))"

text \<open>Lines 132 to 156.\<close>

definition build_model_Info :: "f8 list \<Rightarrow> py_error + model_Info" where
  "build_model_Info params =
     bind_err (int_item params 9) (\<lambda>v_springs.
     bind_err (int_item params 10) (\<lambda>v_update_springs.
     bind_err (int_item params 11) (\<lambda>v_target_pts.
     bind_err (int_item params 12) (\<lambda>v_update_target_pts.
     bind_err (int_item params 13) (\<lambda>v_beams.
     bind_err (int_item params 14) (\<lambda>v_update_beams.
     bind_err (int_item params 15) (\<lambda>v_muscles.
     bind_err (int_item params 16) (\<lambda>v_hill_3_muscles.
     bind_err (int_item params 17) (\<lambda>v_arb_ext_force.
     bind_err (int_item params 18) (\<lambda>v_tracers.
     bind_err (int_item params 19) (\<lambda>v_mass.
     bind_err (int_item params 20) (\<lambda>v_gravity.
     bind_err (item params 21) (\<lambda>v_xG.
     bind_err (item params 22) (\<lambda>v_yG.
     bind_err (int_item params 23) (\<lambda>v_porous.
     bind_err (int_item params 24) (\<lambda>v_concentration.
     bind_err (int_item params 25) (\<lambda>v_electrophysiology.
     bind_err (int_item params 26) (\<lambda>v_damped_springs.
     bind_err (int_item params 27) (\<lambda>v_update_D_Springs.
       Inr \<lparr>springs = v_springs, update_springs = v_update_springs,
            target_pts = v_target_pts, update_target_pts = v_update_target_pts,
            beams = v_beams, update_beams = v_update_beams, muscles = v_muscles,
            hill_3_muscles = v_hill_3_muscles, arb_ext_force = v_arb_ext_force,
            tracers = v_tracers, mass = v_mass, gravity = v_gravity,
            xG = v_xG, yG = v_yG, porous = v_porous, concentration = v_concentration,
            electrophysiology = v_electrophysiology, damped_springs = v_damped_springs,
            update_D_Springs = v_update_D_Springs\<rparr>)))))))))))))))))))"

text \<open>
  Lines 100 to 163 of \<^verbatim>\<open>main2d\<close>, given what line 97 returned: the fluid and temporal
  values, the two dictionaries, and the call of the driver.
\<close>

definition main2d_build :: "string \<Rightarrow> f8 list \<Rightarrow> py_error + driver_args" where
  "main2d_build name params =
     bind_err (item params 0) (\<lambda>v_mu.
     bind_err (item params 1) (\<lambda>v_rho.
     bind_err (item params 2) (\<lambda>v_T_final.
     bind_err (item params 3) (\<lambda>v_dt.
     bind_err (build_grid_Info params) (\<lambda>v_grid.
     bind_err (build_model_Info params) (\<lambda>v_model.
       Inr \<lparr>struct_name = name, mu = v_mu, rho = v_rho, grid = v_grid,
            dt = v_dt, T_final = v_T_final, model = v_model\<rparr>))))))"

definition main2d ::
  "(string \<Rightarrow> py_error + f8) \<Rightarrow> (string \<rightharpoonup> string list) \<Rightarrow> string \<times> string
     \<Rightarrow> py_error + driver_args" where
  "main2d conv fs fpath =
     bind_err (give_Me_input2d_Parameters conv fs fpath) (\<lambda>(params, name).
       main2d_build name params)"

subsection \<open>The command line\<close>






subsection \<open>The positional schema\<close>

text \<open>
  The slots \<^verbatim>\<open>main2d\<close> converts with \<^verbatim>\<open>int\<close>: the two grid counts, the feature flags
  of \<^verbatim>\<open>model_Info\<close> and the plot switches of \<^verbatim>\<open>grid_Info\<close>. The highest slot read is
  34, so the schema has 35 slots.
\<close>

definition int_slots :: "nat list" where
  "int_slots = [4, 5, 9, 10, 11, 12, 13, 14, 15, 16, 17, 18, 19, 20,
                23, 24, 25, 26, 27, 29, 30, 31, 32, 33, 34]"

fun is_num :: "f8 \<Rightarrow> bool" where
  "is_num (Num r) = True"
| "is_num Infty = False"
| "is_num NaN = False"

text \<open>Every slot that is converted with \<^verbatim>\<open>int\<close> and present in the vector is finite.\<close>

definition ints_finite :: "f8 list \<Rightarrow> bool" where
  "ints_finite params = list_all (\<lambda>i. i < length params \<longrightarrow> is_num (params ! i)) int_slots"

text \<open>
  The boolean-like slots with the flag each one fills: the switches of
  \<^verbatim>\<open>model_Info\<close> (lines 133 to 156) and the plot switches of \<^verbatim>\<open>grid_Info\<close> (lines 118
  to 127).
\<close>

definition flag_slots :: "(nat \<times> (driver_args \<Rightarrow> int)) list" where
  "flag_slots =
     [(9, \<lambda>a. springs (model a)), (10, \<lambda>a. update_springs (model a)),
      (11, \<lambda>a. target_pts (model a)), (12, \<lambda>a. update_target_pts (model a)),
      (13, \<lambda>a. beams (model a)), (14, \<lambda>a. update_beams (model a)),
      (15, \<lambda>a. muscles (model a)), (16, \<lambda>a. hill_3_muscles (model a)),
      (17, \<lambda>a. arb_ext_force (model a)), (18, \<lambda>a. tracers (model a)),
      (19, \<lambda>a. mass (model a)), (20, \<lambda>a. gravity (model a)),
      (23, \<lambda>a. porous (model a)), (24, \<lambda>a. concentration (model a)),
      (25, \<lambda>a. electrophysiology (model a)), (26, \<lambda>a. damped_springs (model a)),
      (27, \<lambda>a. update_D_Springs (model a)),
      (29, \<lambda>a. pMatplotlib (grid a)), (30, \<lambda>a. lagPlot (grid a)),
      (31, \<lambda>a. velPlot (grid a)), (32, \<lambda>a. vortPlot (grid a)),
      (33, \<lambda>a. uMagPlot (grid a)), (34, \<lambda>a. pressPlot (grid a))]"

text \<open>
  The numeric fields of a configuration written back as a flat sequence, each field at
  the slot \<^verbatim>\<open>main2d\<close> reads it from; an integer field is written as the number it is.
  The derived steps \<^verbatim>\<open>dx\<close> and \<^verbatim>\<open>dy\<close> have no slot. The program has no such function:
  it is the inverse reading of the schema that the round-trip property speaks of.
\<close>

definition f8_of_int :: "int \<Rightarrow> f8" where
  "f8_of_int n = Num (of_int n)"

definition schema_serialize :: "driver_args \<Rightarrow> f8 list" where
  "schema_serialize a =
     [mu a, rho a, T_final a, dt a,
      f8_of_int (Nx (grid a)), f8_of_int (Ny (grid a)), Lx (grid a), Ly (grid a),
      supp (grid a),
      f8_of_int (springs (model a)), f8_of_int (update_springs (model a)),
      f8_of_int (target_pts (model a)), f8_of_int (update_target_pts (model a)),
      f8_of_int (beams (model a)), f8_of_int (update_beams (model a)),
      f8_of_int (muscles (model a)), f8_of_int (hill_3_muscles (model a)),
      f8_of_int (arb_ext_force (model a)), f8_of_int (tracers (model a)),
      f8_of_int (mass (model a)), f8_of_int (gravity (model a)),
      xG (model a), yG (model a),
      f8_of_int (porous (model a)), f8_of_int (concentration (model a)),
      f8_of_int (electrophysiology (model a)), f8_of_int (damped_springs (model a)),
      f8_of_int (update_D_Springs (model a)),
      pDump (grid a),
      f8_of_int (pMatplotlib (grid a)), f8_of_int (lagPlot (grid a)),
      f8_of_int (velPlot (grid a)), f8_of_int (vortPlot (grid a)),
      f8_of_int (uMagPlot (grid a)), f8_of_int (pressPlot (grid a))]"

text \<open>
  A well-formed parameter vector, after the invariants of the specification's data
  model: its length is the schema's, and every count and flag is a whole number.
\<close>

fun is_whole :: "f8 \<Rightarrow> bool" where
  "is_whole (Num r) = (of_int \<lfloor>r\<rfloor> = r)"
| "is_whole Infty = False"
| "is_whole NaN = False"

definition well_formed :: "f8 list \<Rightarrow> bool" where
  "well_formed params = (length params = 35 \<and> list_all (\<lambda>i. is_whole (params ! i)) int_slots)"

subsection \<open>Concrete files and vectors\<close>

text \<open>The file of the specification's end-to-end example, under \<^verbatim>\<open>/sims/run1\<close>.\<close>

definition example_lines :: "string list" where
  "example_lines =
     [''mu = 0.01'', ''rho = 1.0'', ''% comment string_name = ignored.vertex'',
      ''string_name = beam.vertex'']"

definition example_fs :: "string \<rightharpoonup> string list" where
  "example_fs = [''/sims/run1/input2d'' \<mapsto> example_lines]"

text \<open>A file whose reference line carries no comment marker.\<close>

definition bare_fs :: "string \<rightharpoonup> string list" where
  "bare_fs = [''/sims/run1/input2d'' \<mapsto> [''mu = 0.01'', ''rho = 1.0'', ''string_name = beam.vertex'']]"

text \<open>A file in which the keyword stands behind the comment marker only.\<close>

definition commented_fs :: "string \<rightharpoonup> string list" where
  "commented_fs =
     [''/sims/run1/input2d'' \<mapsto> [''mu = 0.01'', ''rho = 1.0'', ''% string_name = beam.vertex'']]"

text \<open>
  A vector of the schema's length: a 5 by 5 grid on a 10 by 10 domain, springs and
  gravity on and every other flag off but \<^verbatim>\<open>beams\<close>, which holds 2.
\<close>

definition full_params :: "f8 list" where
  "full_params = map Num
     [1 / 100, 1, 2, 1 / 1000, 5, 5, 10, 10, 4,
      1, 0, 0, 0, 2, 0, 0, 0, 0, 0, 0, 1, 0, - 981, 0, 0, 0, 0, 0,
      20, 1, 0, 0, 0, 0, 0]"

text \<open>The same vector with 1/2 in the slot of \<^verbatim>\<open>springs\<close>.\<close>

definition half_flag_params :: "f8 list" where
  "half_flag_params = full_params[9 := Num (1 / 2)]"

text \<open>The same vector with an infinite count of points in x.\<close>

definition inf_count_params :: "f8 list" where
  "inf_count_params = full_params[4 := Infty]"

text \<open>The same vector with two and a half points in x, and what is read off the x axis
  of a configuration: the stored count, the stored length and the step.\<close>

definition fractional_count_params :: "f8 list" where
  "fractional_count_params = full_params[4 := Num (5 / 2)]"

definition x_axis :: "driver_args \<Rightarrow> int \<times> f8 \<times> f8" where
  "x_axis a = (Nx (grid a), Lx (grid a), dx (grid a))"

text \<open>A file that yields \<open>full_params\<close>, its reference line followed by a comment.\<close>

definition full_lines :: "string list" where
  "full_lines =
     [''% fluid'', ''mu = 0.01'', ''rho = 1'', ''T = 2'', ''dt = 0.001'',
      ''Nx = 5'', ''Ny = 5'', ''Lx = 10'', ''Ly = 10'', ''supp = 4'',
      ''s = 1'', ''us = 0'', ''t = 0'', ''ut = 0'', ''b = 2'', ''ub = 0'',
      ''m = 0'', ''h = 0'', ''f = 0'', ''tr = 0'', ''ma = 0'', ''g = 1'',
      ''xG = 0'', ''yG = -981'', ''p = 0'', ''c = 0'', ''e = 0'', ''d = 0'', ''ud = 0'',
      ''pDump = 20'', ''pM = 1'', ''lag = 0'', ''vel = 0'', ''vort = 0'', ''uMag = 0'',
      ''press = 0'', ''string_name = beam.vertex % structure'']"

definition full_fs :: "string \<rightharpoonup> string list" where
  "full_fs = [''/sims/run1/input2d'' \<mapsto> full_lines]"

subsection \<open>Failing with \<^verbatim>\<open>IndexError\<close> only\<close>

definition index_failure_only :: "py_error + 'a \<Rightarrow> bool" where
  "index_failure_only m = (case m of Inl e \<Rightarrow> e = IndexError | Inr x \<Rightarrow> True)"

section \<open>Basic facts\<close>

subsection \<open>Sequencing\<close>

lemma bind_err_Inl [simp]: "bind_err (Inl e) f = Inl e"
  by (simp add: bind_err_def)

lemma bind_err_Inr [simp]: "bind_err (Inr x) f = f x"
  by (simp add: bind_err_def)

lemma bind_err_eq_Inr: "bind_err m f = Inr y \<longleftrightarrow> (\<exists>x. m = Inr x \<and> f x = Inr y)"
  by (cases m) simp_all

lemma bind_err_ok:
  "\<exists>x. m = Inr x \<Longrightarrow> (\<And>x. \<exists>y. f x = Inr y) \<Longrightarrow> \<exists>y. bind_err m f = Inr y"
  by auto

lemma index_failure_only_bind:
  "index_failure_only m \<Longrightarrow> (\<And>x. index_failure_only (f x)) \<Longrightarrow>
     index_failure_only (bind_err m f)"
  by (cases m) (simp_all add: index_failure_only_def)

lemma index_failure_only_Inr: "index_failure_only (Inr x)"
  by (simp add: index_failure_only_def)

subsection \<open>Searching a string\<close>

lemma find_from_absent: "\<not> py_in sub s \<Longrightarrow> find_from i sub s = - 1"
  by (induction s arbitrary: i) auto

lemma find_from_present: "py_in sub s \<Longrightarrow> int i \<le> find_from i sub s"
proof (induction s arbitrary: i)
  case Nil
  then show ?case by simp
next
  case (Cons c s)
  show ?case
  proof (cases "prefix sub (c # s)")
    case True
    then show ?thesis by simp
  next
    case False
    with Cons.prems have "py_in sub s" by simp
    from Cons.IH [OF this, of "Suc i"] False show ?thesis by simp
  qed
qed

lemma py_in_char: "py_in [c] s \<longleftrightarrow> c \<in> set s"
  by (induction s) auto

lemma py_find_absent: "\<not> py_in sub s \<Longrightarrow> py_find s sub = - 1"
  by (simp add: py_find_def find_from_absent)

lemma py_find_present: "py_in sub s \<Longrightarrow> 0 \<le> py_find s sub"
  using find_from_present [of sub s 0] by (simp add: py_find_def)

lemma py_in_iff_find: "py_in sub s \<longleftrightarrow> 0 \<le> py_find s sub"
  by (cases "py_in sub s") (simp_all add: py_find_present py_find_absent)

subsection \<open>The reference line\<close>

text \<open>
  \<^verbatim>\<open>find\<close> answers \<open>-1\<close> for a marker that is absent, and no position is below
  \<open>-1\<close>: a line without the comment marker never passes the test of line 77.
\<close>

lemma no_marker_no_reference: "CHR ''%'' \<notin> set line \<Longrightarrow> \<not> is_reference_line line"
proof
  assume a: "CHR ''%'' \<notin> set line" and r: "is_reference_line line"
  from a have "py_find line ''%'' = - 1"
    by (simp add: py_find_absent py_in_char)
  moreover from r have "0 \<le> py_find line ''string_name''"
    by (simp add: is_reference_line_def py_find_present)
  ultimately show False using r by (simp add: is_reference_line_def)
qed

lemma find_struct_name_none:
  "\<forall>l \<in> set lines. \<not> is_reference_line l \<Longrightarrow> find_struct_name dir lines = Inr None"
  by (induction lines) simp_all

subsection \<open>The numeric pass\<close>

lemma np_loadtxt_comment_line:
  "prefix ''%'' l \<Longrightarrow> np_loadtxt conv (l # rest) = np_loadtxt conv rest"
  by (cases l) (simp_all add: strip_crlf_def)

lemma np_loadtxt_cong_tail:
  "np_loadtxt conv xs = np_loadtxt conv ys \<Longrightarrow>
     np_loadtxt conv (l # xs) = np_loadtxt conv (l # ys)"
  by (simp add: Let_def split: list.splits)

subsection \<open>The builder\<close>

lemma item_eq_Inr: "item xs i = Inr x \<longleftrightarrow> i < length xs \<and> x = xs ! i"
  by (auto simp add: item_def)

lemma int_item_eq_Inr:
  "int_item xs i = Inr n \<longleftrightarrow> i < length xs \<and> py_int (xs ! i) = Inr n"
  by (auto simp add: int_item_def item_def)

lemma div_items_eq_Inr:
  "div_items xs i j = Inr q \<longleftrightarrow>
     i < length xs \<and> j < length xs \<and> q = f8_div (xs ! i) (xs ! j)"
  by (auto simp add: div_items_def item_def)

text \<open>What a dictionary that was built holds, slot by slot.\<close>

lemma build_grid_Info_Inr:
  assumes "build_grid_Info v = Inr g"
  shows "35 \<le> length v"
    and "py_int (v ! 4) = Inr (Nx g)" and "py_int (v ! 5) = Inr (Ny g)"
    and "Lx g = v ! 6" and "Ly g = v ! 7"
    and "dx g = f8_div (v ! 6) (v ! 4)" and "dy g = f8_div (v ! 7) (v ! 5)"
    and "supp g = v ! 8" and "pDump g = v ! 28"
    and "py_int (v ! 29) = Inr (pMatplotlib g)" and "py_int (v ! 30) = Inr (lagPlot g)"
    and "py_int (v ! 31) = Inr (velPlot g)" and "py_int (v ! 32) = Inr (vortPlot g)"
    and "py_int (v ! 33) = Inr (uMagPlot g)" and "py_int (v ! 34) = Inr (pressPlot g)"
  using assms
  by (auto simp add: build_grid_Info_def bind_err_eq_Inr item_eq_Inr int_item_eq_Inr
      div_items_eq_Inr)

lemma build_model_Info_Inr:
  assumes "build_model_Info v = Inr m"
  shows "py_int (v ! 9) = Inr (springs m)" and "py_int (v ! 10) = Inr (update_springs m)"
    and "py_int (v ! 11) = Inr (target_pts m)"
    and "py_int (v ! 12) = Inr (update_target_pts m)"
    and "py_int (v ! 13) = Inr (beams m)" and "py_int (v ! 14) = Inr (update_beams m)"
    and "py_int (v ! 15) = Inr (muscles m)" and "py_int (v ! 16) = Inr (hill_3_muscles m)"
    and "py_int (v ! 17) = Inr (arb_ext_force m)" and "py_int (v ! 18) = Inr (tracers m)"
    and "py_int (v ! 19) = Inr (mass m)" and "py_int (v ! 20) = Inr (gravity m)"
    and "xG m = v ! 21" and "yG m = v ! 22"
    and "py_int (v ! 23) = Inr (porous m)" and "py_int (v ! 24) = Inr (concentration m)"
    and "py_int (v ! 25) = Inr (electrophysiology m)"
    and "py_int (v ! 26) = Inr (damped_springs m)"
    and "py_int (v ! 27) = Inr (update_D_Springs m)"
  using assms
  by (auto simp add: build_model_Info_def bind_err_eq_Inr item_eq_Inr int_item_eq_Inr)

lemma main2d_build_Inr:
  assumes "main2d_build name v = Inr a"
  shows "struct_name a = name" and "mu a = v ! 0" and "rho a = v ! 1"
    and "T_final a = v ! 2" and "dt a = v ! 3"
    and "build_grid_Info v = Inr (grid a)" and "build_model_Info v = Inr (model a)"
  using assms
  by (auto simp add: main2d_build_def bind_err_eq_Inr item_eq_Inr)

lemma main2d_build_length: "main2d_build name v = Inr a \<Longrightarrow> 35 \<le> length v"
  using build_grid_Info_Inr(1) main2d_build_Inr(6) by blast

text \<open>With finite values in the converted slots, a missing slot is all that can fail.\<close>

lemma index_failure_only_item: "index_failure_only (item xs i)"
  by (simp add: index_failure_only_def item_def)

lemma index_failure_only_div_items: "index_failure_only (div_items xs i j)"
  by (simp add: index_failure_only_def div_items_def item_def)

lemma index_failure_only_int_item:
  "(i < length xs \<Longrightarrow> is_num (xs ! i)) \<Longrightarrow> index_failure_only (int_item xs i)"
  by (cases "xs ! i") (auto simp add: index_failure_only_def int_item_def item_def)

lemma ints_finiteD:
  "ints_finite v \<Longrightarrow> i \<in> set int_slots \<Longrightarrow> i < length v \<Longrightarrow> is_num (v ! i)"
  by (simp add: ints_finite_def list_all_iff)

lemma build_grid_Info_index_only:
  assumes "ints_finite v"
  shows "index_failure_only (build_grid_Info v)"
  unfolding build_grid_Info_def
  by (intro index_failure_only_bind index_failure_only_Inr index_failure_only_item
        index_failure_only_div_items index_failure_only_int_item ints_finiteD [OF assms])
     (simp_all add: int_slots_def)

lemma build_model_Info_index_only:
  assumes "ints_finite v"
  shows "index_failure_only (build_model_Info v)"
  unfolding build_model_Info_def
  by (intro index_failure_only_bind index_failure_only_Inr index_failure_only_item
        index_failure_only_int_item ints_finiteD [OF assms])
     (simp_all add: int_slots_def)

lemma main2d_build_index_only:
  assumes "ints_finite v"
  shows "index_failure_only (main2d_build name v)"
  unfolding main2d_build_def
  by (intro index_failure_only_bind index_failure_only_Inr index_failure_only_item
        build_grid_Info_index_only build_model_Info_index_only assms)

text \<open>With 35 slots and finite values in the converted ones, every step returns.\<close>

lemma item_ok: "i < length xs \<Longrightarrow> \<exists>x. item xs i = Inr x"
  by (simp add: item_def)

lemma div_items_ok: "i < length xs \<Longrightarrow> j < length xs \<Longrightarrow> \<exists>x. div_items xs i j = Inr x"
  by (simp add: div_items_def item_def)

lemma int_item_ok: "i < length xs \<Longrightarrow> is_num (xs ! i) \<Longrightarrow> \<exists>n. int_item xs i = Inr n"
  by (cases "xs ! i") (simp_all add: int_item_def item_def)

lemma build_grid_Info_ok:
  assumes "35 \<le> length v" "ints_finite v"
  shows "\<exists>g. build_grid_Info v = Inr g"
  unfolding build_grid_Info_def
  by (intro bind_err_ok item_ok div_items_ok int_item_ok ints_finiteD [OF assms(2)]
        exI [of _ "_ :: grid_Info"] refl)
     (use assms(1) in \<open>simp_all add: int_slots_def\<close>)

lemma build_model_Info_ok:
  assumes "35 \<le> length v" "ints_finite v"
  shows "\<exists>g. build_model_Info v = Inr g"
  unfolding build_model_Info_def
  by (intro bind_err_ok item_ok int_item_ok ints_finiteD [OF assms(2)]
        exI [of _ "_ :: model_Info"] refl)
     (use assms(1) in \<open>simp_all add: int_slots_def\<close>)

lemma main2d_build_ok:
  assumes "35 \<le> length v" "ints_finite v"
  shows "\<exists>a. main2d_build name v = Inr a"
  unfolding main2d_build_def
  by (intro bind_err_ok item_ok build_grid_Info_ok build_model_Info_ok assms
        exI [of _ "_ :: driver_args"] refl)
     (use assms(1) in auto)

text \<open>Slots past the 35th are never read.\<close>

lemma item_append: "i < length xs \<Longrightarrow> item (xs @ ys) i = item xs i"
  by (simp add: item_def nth_append)

lemma main2d_build_append:
  assumes "35 \<le> length v"
  shows "main2d_build name (v @ extra) = main2d_build name v"
proof -
  have i: "\<And>i. i < 35 \<Longrightarrow> item (v @ extra) i = item v i"
    using assms by (simp add: item_append)
  show ?thesis
    by (simp add: main2d_build_def build_grid_Info_def build_model_Info_def int_item_def
        div_items_def i)
qed

subsection \<open>Evaluating the definitions on concrete text\<close>

lemmas text_defs =
  py_split_def py_isspace_def py_split_on_def py_strip_def strip_crlf_def is_crlf_def
  py_find_def is_reference_line_def os_path_join_def os_path_split_def suffix_to_prefix

lemmas float_defs =
  py_float_def take_sign_def lower_ascii_def decimal_value_def is_exp_mark_def digit_of_def
  exponent_value_def scale10_def

subsection \<open>Facts used by several claims\<close>

lemma trunc0_of_int: "trunc0 (of_int k) = k"
  by (simp add: trunc0_def)

lemma main2d_build_grid:
  assumes "main2d_build name v = Inr a"
  shows "py_int (v ! 4) = Inr (Nx (grid a))" and "py_int (v ! 5) = Inr (Ny (grid a))"
    and "Lx (grid a) = v ! 6" and "Ly (grid a) = v ! 7"
    and "dx (grid a) = f8_div (v ! 6) (v ! 4)" and "dy (grid a) = f8_div (v ! 7) (v ! 5)"
  using build_grid_Info_Inr [OF main2d_build_Inr(6) [OF assms]] by simp_all

text \<open>Every flag is \<^verbatim>\<open>int\<close> of its slot.\<close>

lemma flag_slot_value:
  assumes "main2d_build name v = Inr a" and "(i, flag) \<in> set flag_slots"
  shows "py_int (v ! i) = Inr (flag a)"
  using assms(2) build_grid_Info_Inr [OF main2d_build_Inr(6) [OF assms(1)]]
    build_model_Info_Inr [OF main2d_build_Inr(7) [OF assms(1)]]
  by (auto simp add: flag_slots_def)

lemma full_params_eval:
  "length full_params = 35" "ints_finite full_params"
  by (simp_all add: full_params_def ints_finite_def int_slots_def)

lemma half_flag_params_eval:
  "length half_flag_params = 35" "ints_finite half_flag_params"
  "half_flag_params ! 9 = Num (1 / 2)"
  by (simp_all add: half_flag_params_def full_params_def ints_finite_def int_slots_def)

text \<open>An infinity can come out of the file: the numeric pass reads the word.\<close>

lemma infinity_is_readable:
  "np_loadtxt py_float [''Nx = inf'', ''Ny = 5''] = Inr [Infty, Num 5]"
  by (simp add: text_defs float_defs)

subsection \<open>Writing a configuration back\<close>

lemma is_whole_is_num: "is_whole x \<Longrightarrow> is_num x"
  by (cases x) simp_all

lemma whole_round_trip: "is_whole x \<Longrightarrow> py_int x = Inr n \<Longrightarrow> f8_of_int n = x"
proof (cases x)
  case (Num r)
  assume w: "is_whole x" and p: "py_int x = Inr n"
  from w Num have r: "of_int \<lfloor>r\<rfloor> = r" by simp
  then have "\<lceil>r\<rceil> = \<lfloor>r\<rfloor>" by (metis ceiling_of_int)
  with p Num have "n = \<lfloor>r\<rfloor>" by (auto simp add: trunc0_def split: if_splits)
  with r Num show ?thesis by (simp add: f8_of_int_def)
qed simp_all

lemma well_formedD:
  "well_formed v \<Longrightarrow> length v = 35"
  "well_formed v \<Longrightarrow> i \<in> set int_slots \<Longrightarrow> is_whole (v ! i)"
  by (simp_all add: well_formed_def list_all_iff)

lemma well_formed_ints_finite: "well_formed v \<Longrightarrow> ints_finite v"
  by (simp add: well_formed_def ints_finite_def list_all_iff is_whole_is_num)

lemma upt35:
  "[0..<35] = [0, 1, 2, 3, 4, 5, 6, 7, 8, 9, 10, 11, 12, 13, 14, 15, 16, 17, 18, 19,
     20, 21, 22, 23, 24, 25, 26, 27, 28, 29, 30, 31, 32, 33, 34]"
  by code_simp

lemma list35: "length xs = 35 \<Longrightarrow> xs = map ((!) xs) [0..<35]"
  by (metis map_nth)

lemma serialize_build:
  assumes b: "main2d_build name v = Inr a" and w: "well_formed v"
  shows "schema_serialize a = v"
proof -
  note g = build_grid_Info_Inr [OF main2d_build_Inr(6) [OF b]]
  note m = build_model_Info_Inr [OF main2d_build_Inr(7) [OF b]]
  note t = main2d_build_Inr [OF b]
  have k: "\<And>i n. i \<in> set int_slots \<Longrightarrow> py_int (v ! i) = Inr n \<Longrightarrow> f8_of_int n = v ! i"
    using well_formedD(2) [OF w] whole_round_trip by blast
  have s: "schema_serialize a = map ((!) v) [0..<35]"
    unfolding schema_serialize_def
    by (simp add: t g(4,5,8,9) m(13,14)
        k [OF _ g(2)] k [OF _ g(3)] k [OF _ g(10)] k [OF _ g(11)] k [OF _ g(12)]
        k [OF _ g(13)] k [OF _ g(14)] k [OF _ g(15)]
        k [OF _ m(1)] k [OF _ m(2)] k [OF _ m(3)] k [OF _ m(4)] k [OF _ m(5)] k [OF _ m(6)]
        k [OF _ m(7)] k [OF _ m(8)] k [OF _ m(9)] k [OF _ m(10)] k [OF _ m(11)] k [OF _ m(12)]
        k [OF _ m(15)] k [OF _ m(16)] k [OF _ m(17)] k [OF _ m(18)] k [OF _ m(19)]
        int_slots_def upt35)
  with list35 [OF well_formedD(1) [OF w]] show ?thesis by simp
qed

lemma full_fs_eval:
  "give_Me_input2d_Parameters py_float full_fs (''/sims/run1'', ''input2d'') =
     Inr (full_params, ''/sims/run1/beam.vertex'')"
  by (simp add: give_Me_input2d_Parameters_def full_fs_def full_lines_def full_params_def
      text_defs float_defs)

lemma full_params_well_formed: "well_formed full_params"
  by (simp add: well_formed_def full_params_def int_slots_def)

text \<open>
  The whole numbers are needed: with 1/2 in the slot of \<^verbatim>\<open>springs\<close> the flag stored is
  0, and writing the configuration back gives 0 in that slot.
\<close>

lemma round_trip_needs_whole_flags:
  "\<exists>a. main2d_build ''s'' half_flag_params = Inr a \<and> schema_serialize a \<noteq> half_flag_params"
proof -
  obtain a where a: "main2d_build ''s'' half_flag_params = Inr a"
    using main2d_build_ok [OF _ half_flag_params_eval(2), of "''s''"]
      half_flag_params_eval(1)
    by auto
  have "(9, \<lambda>a. springs (model a)) \<in> set flag_slots"
    by (simp add: flag_slots_def)
  from flag_slot_value [OF a this] have "springs (model a) = 0"
    by (simp add: half_flag_params_eval(3) trunc0_def)
  then have "schema_serialize a ! 9 = Num 0"
    by (simp add: schema_serialize_def f8_of_int_def)
  with half_flag_params_eval(3) have "schema_serialize a \<noteq> half_flag_params"
    by auto
  with a show ?thesis by blast
qed

section \<open>The claims\<close>

text \<open>
  C4. A line of the configuration file that begins with the comment marker contributes
  no value to the parameter vector, whatever follows the marker, an assignment such as
  \<^verbatim>\<open>name = 3.0\<close> included: the numeric pass returns the same on the file with the line
  and on the file without it.
\<close>

theorem comment_line_contributes_nothing:
  "prefix ''%'' l \<Longrightarrow>
     np_loadtxt conv (before @ l # after) = np_loadtxt conv (before @ after)"
proof (induction before)
  case Nil
  then show ?case by (simp only: append_Nil np_loadtxt_comment_line)
next
  case (Cons b before)
  have "np_loadtxt conv (b # (before @ l # after)) = np_loadtxt conv (b # (before @ after))"
    by (rule np_loadtxt_cong_tail) (rule Cons.IH [OF Cons.prems])
  then show ?case by (simp only: append_Cons)
qed

theorem comment_line_contributes_nothing_witness:
  "prefix ''%'' ''% name = 3.0'' \<and>
   np_loadtxt py_float ([''mu = 0.01''] @ ''% name = 3.0'' # [''rho = 1.0'']) =
     Inr [Num (1 / 100), Num 1]"
  using comment_line_contributes_nothing
    [of "''% name = 3.0''" py_float "[''mu = 0.01'']" "[''rho = 1.0'']"]
  by (simp add: text_defs float_defs)

text \<open>
  C1. In the string-reference pass, a line that contains the keyword
  \<^verbatim>\<open>string_name\<close> is said to qualify whenever the keyword stands before the comment
  marker, and always when the line has no comment marker. The code does the first and
  not the second: on the line \<^verbatim>\<open>string_name = beam.vertex\<close>, which contains the keyword
  and no marker, the test of lines 76 and 77 is false, no line assigns
  \<^verbatim>\<open>struct_name\<close>, and the extractor raises \<^verbatim>\<open>UnboundLocalError\<close>
  (lemma \<open>no_marker_no_reference\<close> is the general fact).
\<close>

theorem unmarked_reference_line_rejected:
  "py_in ''string_name'' ''string_name = beam.vertex'' \<and>
   CHR ''%'' \<notin> set ''string_name = beam.vertex'' \<and>
   \<not> is_reference_line ''string_name = beam.vertex'' \<and>
   give_Me_input2d_Parameters py_float bare_fs (''/sims/run1'', ''input2d'') =
     Inl UnboundLocalError"
  by (simp add: bare_fs_def give_Me_input2d_Parameters_def text_defs float_defs)

text \<open>
  C2. The end-to-end example: the file with the lines \<^verbatim>\<open>mu = 0.01\<close>, \<^verbatim>\<open>rho = 1.0\<close>,
  \<^verbatim>\<open>% comment string_name = ignored.vertex\<close>, \<^verbatim>\<open>string_name = beam.vertex\<close> under
  \<^verbatim>\<open>/sims/run1\<close>. As stated (extraction and construction succeed) the claim fails: the
  run ends with an exception. What holds on this file: the path splits into the
  directory and \<^verbatim>\<open>input2d\<close>; the numeric pass yields the two values 0.01 and 1.0 in
  this order, the slots read as viscosity and density; the commented line is not taken
  as the reference line; the word after \<^verbatim>\<open>=\<close> on the line
  \<^verbatim>\<open>string_name = beam.vertex\<close>, joined with the directory, is
  \<^verbatim>\<open>/sims/run1/beam.vertex\<close>; and construction from a vector of two values does not
  succeed, it raises \<^verbatim>\<open>IndexError\<close>, the schema having 35 slots.
\<close>

theorem example_file_by_parts:
  "os_path_split ''/sims/run1/input2d'' = (''/sims/run1'', ''input2d'') \<and>
   np_loadtxt py_float example_lines = Inr [Num (1 / 100), Num 1] \<and>
   \<not> is_reference_line ''% comment string_name = ignored.vertex'' \<and>
   word_after_equals ''/sims/run1'' (py_split ''string_name = beam.vertex'') =
     Inr (Some ''/sims/run1/beam.vertex'') \<and>
   main2d_build ''/sims/run1/beam.vertex'' [Num (1 / 100), Num 1] = Inl IndexError"
  by (simp add: example_lines_def text_defs float_defs main2d_build_def item_def)

theorem example_file_run_fails:
  "main2d py_float example_fs (''/sims/run1'', ''input2d'') = Inl UnboundLocalError"
  by (simp add: main2d_def example_fs_def example_lines_def give_Me_input2d_Parameters_def
      text_defs float_defs)

text \<open>
  C3. When the keyword \<^verbatim>\<open>string_name\<close> stands behind the comment marker on every line
  where it occurs, the extractor returns no structure reference: it fails, and with
  \<^verbatim>\<open>UnboundLocalError\<close> (StructureReferenceMissing) whenever the numeric pass, which
  runs first, has returned its values.
\<close>

theorem commented_keyword_gives_no_reference:
  assumes present: "fs (os_path_join (fst fpath) (snd fpath)) = Some lines"
    and behind: "\<forall>l \<in> set lines. py_in ''string_name'' l \<longrightarrow>
        0 \<le> py_find l ''%'' \<and> py_find l ''%'' < py_find l ''string_name''"
  shows "(\<exists>e. give_Me_input2d_Parameters conv fs fpath = Inl e) \<and>
         (\<forall>params. np_loadtxt conv lines = Inr params \<longrightarrow>
            give_Me_input2d_Parameters conv fs fpath = Inl UnboundLocalError)"
proof -
  have "\<forall>l \<in> set lines. \<not> is_reference_line l"
    using behind by (auto simp add: is_reference_line_def)
  then have none: "find_struct_name (fst fpath) lines = Inr None"
    by (rule find_struct_name_none)
  show ?thesis
    by (cases "np_loadtxt conv lines")
       (simp_all add: give_Me_input2d_Parameters_def present none)
qed

theorem commented_keyword_gives_no_reference_witness:
  "commented_fs (os_path_join (fst (''/sims/run1'', ''input2d''))
      (snd (''/sims/run1'', ''input2d''))) =
     Some [''mu = 0.01'', ''rho = 1.0'', ''% string_name = beam.vertex''] \<and>
   np_loadtxt py_float [''mu = 0.01'', ''rho = 1.0'', ''% string_name = beam.vertex''] =
     Inr [Num (1 / 100), Num 1] \<and>
   give_Me_input2d_Parameters py_float commented_fs (''/sims/run1'', ''input2d'') =
     Inl UnboundLocalError"
proof -
  have f: "commented_fs (os_path_join (fst (''/sims/run1'', ''input2d''))
      (snd (''/sims/run1'', ''input2d''))) =
     Some [''mu = 0.01'', ''rho = 1.0'', ''% string_name = beam.vertex'']"
    by (simp add: commented_fs_def text_defs)
  have b: "\<forall>l \<in> set [''mu = 0.01'', ''rho = 1.0'', ''% string_name = beam.vertex''].
      py_in ''string_name'' l \<longrightarrow>
        0 \<le> py_find l ''%'' \<and> py_find l ''%'' < py_find l ''string_name''"
    by (simp add: text_defs)
  have n: "np_loadtxt py_float [''mu = 0.01'', ''rho = 1.0'', ''% string_name = beam.vertex''] =
      Inr [Num (1 / 100), Num 1]"
    by (simp add: text_defs float_defs)
  from commented_keyword_gives_no_reference
    [where fs = commented_fs and fpath = "(''/sims/run1'', ''input2d'')"
      and lines = "[''mu = 0.01'', ''rho = 1.0'', ''% string_name = beam.vertex'']" and conv = py_float,
      OF f b] n f
  show ?thesis by simp
qed

text \<open>
  C5. Construction by the length of the vector. As stated the claim fails on a value
  that \<^verbatim>\<open>int\<close> refuses: a vector of 35 values with an infinite count raises
  \<^verbatim>\<open>OverflowError\<close>, and so does its prefix of 10 values. What holds: a vector shorter
  than the 35 slots of the schema yields no configuration at all, and fails with
  \<^verbatim>\<open>IndexError\<close> when the slots converted with \<^verbatim>\<open>int\<close> that it has are finite; a vector
  of at least 35 values whose converted slots are finite succeeds; and the values past
  the 35th are ignored, the result being that of the vector without them.
\<close>

theorem construction_by_length:
  "(length v < 35 \<longrightarrow> (\<forall>a. main2d_build name v \<noteq> Inr a)) \<and>
   (length v < 35 \<and> ints_finite v \<longrightarrow> main2d_build name v = Inl IndexError) \<and>
   (35 \<le> length v \<and> ints_finite v \<longrightarrow> (\<exists>a. main2d_build name v = Inr a)) \<and>
   (35 \<le> length v \<longrightarrow> main2d_build name (v @ extra) = main2d_build name v)"
proof (intro conjI impI allI)
  fix a
  assume "length v < 35"
  then show "main2d_build name v \<noteq> Inr a"
    using main2d_build_length [of name v a] by auto
next
  assume h: "length v < 35 \<and> ints_finite v"
  then have "index_failure_only (main2d_build name v)"
    by (simp add: main2d_build_index_only)
  moreover have "\<And>a. main2d_build name v \<noteq> Inr a"
    using h main2d_build_length [of name v] by fastforce
  ultimately show "main2d_build name v = Inl IndexError"
    by (cases "main2d_build name v") (auto simp add: index_failure_only_def)
next
  assume "35 \<le> length v \<and> ints_finite v"
  then show "\<exists>a. main2d_build name v = Inr a"
    by (simp add: main2d_build_ok)
next
  assume "35 \<le> length v"
  then show "main2d_build name (v @ extra) = main2d_build name v"
    by (rule main2d_build_append)
qed

theorem construction_by_length_witness:
  "length (take 10 full_params) = 10 \<and> ints_finite (take 10 full_params) \<and>
   main2d_build ''s'' (take 10 full_params) = Inl IndexError \<and>
   length full_params = 35 \<and> ints_finite full_params \<and>
   (\<exists>a. main2d_build ''s'' full_params = Inr a) \<and>
   main2d_build ''s'' (full_params @ [Num 7, NaN]) = main2d_build ''s'' full_params"
proof -
  have s: "length (take 10 full_params) = 10" "ints_finite (take 10 full_params)"
    by (simp_all add: full_params_def ints_finite_def int_slots_def)
  from construction_by_length [of "take 10 full_params" "''s''" "[]"] s
  have 1: "main2d_build ''s'' (take 10 full_params) = Inl IndexError" by simp
  from construction_by_length [of full_params "''s''" "[Num 7, NaN]"] full_params_eval
  have 2: "(\<exists>a. main2d_build ''s'' full_params = Inr a) \<and>
    main2d_build ''s'' (full_params @ [Num 7, NaN]) = main2d_build ''s'' full_params"
    by simp
  from 1 2 s full_params_eval show ?thesis by simp
qed

theorem infinite_count_overflows:
  "length inf_count_params = 35 \<and>
   main2d_build ''/sims/run1/beam.vertex'' inf_count_params = Inl OverflowError \<and>
   length (take 10 inf_count_params) = 10 \<and>
   main2d_build ''/sims/run1/beam.vertex'' (take 10 inf_count_params) = Inl OverflowError"
  by (simp add: inf_count_params_def full_params_def main2d_build_def build_grid_Info_def
      int_item_def item_def)

text \<open>
  C6. The spatial step of an axis, said to be the length of the axis divided by its
  count of grid points. As stated the claim fails when the slot of the count is not a
  whole number: with 2.5 in slot 4 and length 10 the stored count is 2 and the step is
  4, not 10 / 2. What holds: the step is computed by \<^verbatim>\<open>main2d\<close> as the stored length
  divided by the slot of the count as read, before \<^verbatim>\<open>int\<close> truncates it
  (\<^verbatim>\<open>dx = params[6]/params[4]\<close>, \<^verbatim>\<open>dy = params[7]/params[5]\<close>); when that slot holds a
  whole number other than zero, that number is the stored count and the step is the
  stored length over the stored count; with length 10 and count 5 the step is 2.
\<close>

theorem spatial_step_is_length_over_count:
  assumes "main2d_build name v = Inr a"
  shows "dx (grid a) = f8_div (Lx (grid a)) (v ! 4) \<and>
         dy (grid a) = f8_div (Ly (grid a)) (v ! 5) \<and>
         (\<forall>l k. Lx (grid a) = Num l \<and> v ! 4 = Num (of_int k) \<and> k \<noteq> 0 \<longrightarrow>
            Nx (grid a) = k \<and> dx (grid a) = Num (l / of_int (Nx (grid a)))) \<and>
         (\<forall>l k. Ly (grid a) = Num l \<and> v ! 5 = Num (of_int k) \<and> k \<noteq> 0 \<longrightarrow>
            Ny (grid a) = k \<and> dy (grid a) = Num (l / of_int (Ny (grid a)))) \<and>
         (v ! 6 = Num 10 \<and> v ! 4 = Num 5 \<longrightarrow> dx (grid a) = Num 2) \<and>
         (v ! 7 = Num 10 \<and> v ! 5 = Num 5 \<longrightarrow> dy (grid a) = Num 2)"
  using main2d_build_grid [OF assms] by (auto simp add: trunc0_of_int)

theorem spatial_step_is_length_over_count_witness:
  "\<exists>a. main2d_build ''s'' full_params = Inr a \<and> length full_params = 35 \<and>
     full_params ! 6 = Num 10 \<and> full_params ! 4 = Num 5 \<and>
     full_params ! 7 = Num 10 \<and> full_params ! 5 = Num 5 \<and>
     dx (grid a) = Num 2 \<and> dy (grid a) = Num 2"
proof -
  obtain a where a: "main2d_build ''s'' full_params = Inr a"
    using main2d_build_ok [OF _ full_params_eval(2), of "''s''"] full_params_eval(1) by auto
  have v: "full_params ! 6 = Num 10" "full_params ! 4 = Num 5"
    "full_params ! 7 = Num 10" "full_params ! 5 = Num 5"
    by (simp_all add: full_params_def)
  from spatial_step_is_length_over_count [OF a] v
  have "dx (grid a) = Num 2 \<and> dy (grid a) = Num 2" by blast
  with a v full_params_eval(1) show ?thesis by blast
qed

theorem fractional_count_step:
  "length fractional_count_params = 35 \<and>
   fractional_count_params ! 6 = Num 10 \<and> fractional_count_params ! 4 = Num (5 / 2) \<and>
   map_sum id x_axis (main2d_build ''/sims/run1/beam.vertex'' fractional_count_params) =
     Inr (2, Num 10, Num 4) \<and>
   f8_div (Num 10) (f8_of_int 2) = Num 5"
  by (simp add: fractional_count_params_def full_params_def x_axis_def f8_of_int_def
      main2d_build_def build_grid_Info_def build_model_Info_def int_item_def div_items_def
      item_def trunc0_def)

text \<open>
  C7. For every boolean-like slot, the value 0.0 yields a flag that is false and the
  values 1.0 and 2.0 each yield a flag that is true: the flag stored is \<^verbatim>\<open>int\<close> of the
  slot, and its truth value is the test that it is not zero, not the test that it is
  one.
\<close>

theorem flag_truth_is_nonzero_test:
  assumes "main2d_build name v = Inr a" and "(i, flag) \<in> set flag_slots"
  shows "(v ! i = Num 0 \<longrightarrow> flag a = 0 \<and> \<not> py_bool (flag a)) \<and>
         (v ! i = Num 1 \<longrightarrow> flag a = 1 \<and> py_bool (flag a)) \<and>
         (v ! i = Num 2 \<longrightarrow> flag a = 2 \<and> py_bool (flag a)) \<and>
         (\<forall>r. v ! i = Num r \<longrightarrow> (py_bool (flag a) \<longleftrightarrow> trunc0 r \<noteq> 0))"
  using flag_slot_value [OF assms] by (auto simp add: py_bool_def trunc0_def)

theorem flag_truth_is_nonzero_test_witness:
  "\<exists>a. main2d_build ''s'' full_params = Inr a \<and>
     full_params ! 10 = Num 0 \<and> \<not> py_bool (update_springs (model a)) \<and>
     full_params ! 9 = Num 1 \<and> py_bool (springs (model a)) \<and>
     full_params ! 13 = Num 2 \<and> py_bool (beams (model a))"
proof -
  obtain a where a: "main2d_build ''s'' full_params = Inr a"
    using main2d_build_ok [OF _ full_params_eval(2), of "''s''"] full_params_eval(1) by auto
  have v: "full_params ! 10 = Num 0" "full_params ! 9 = Num 1" "full_params ! 13 = Num 2"
    by (simp_all add: full_params_def)
  have "(10, \<lambda>a. update_springs (model a)) \<in> set flag_slots"
    by (simp add: flag_slots_def)
  from flag_truth_is_nonzero_test [OF a this] v
  have 0: "\<not> py_bool (update_springs (model a))" by blast
  have "(9, \<lambda>a. springs (model a)) \<in> set flag_slots"
    by (simp add: flag_slots_def)
  from flag_truth_is_nonzero_test [OF a this] v
  have 1: "py_bool (springs (model a))" by blast
  have "(13, \<lambda>a. beams (model a)) \<in> set flag_slots"
    by (simp add: flag_slots_def)
  from flag_truth_is_nonzero_test [OF a this] v
  have 2: "py_bool (beams (model a))" by blast
  from a v 0 1 2 show ?thesis by blast
qed

text \<open>
  C8. The round trip over the positional mapping. For every input file that the
  extractor reads and whose parameter vector is well formed (as long as the schema,
  whole numbers in the slots of the counts and flags), \<^verbatim>\<open>main2d\<close> builds a
  configuration, writing its numeric fields back slot by slot gives the parameter
  vector again, and building from the vector written back gives the same configuration.
\<close>

theorem schema_round_trip:
  assumes "give_Me_input2d_Parameters conv fs fpath = Inr (params, name)"
    and "well_formed params"
  shows "\<exists>a. main2d conv fs fpath = Inr a \<and> schema_serialize a = params \<and>
           main2d_build name (schema_serialize a) = Inr a"
proof -
  from assms(2) obtain a where a: "main2d_build name params = Inr a"
    using main2d_build_ok [of params name] well_formedD(1) well_formed_ints_finite by auto
  from serialize_build [OF a assms(2)] have s: "schema_serialize a = params" .
  from a assms(1) have "main2d conv fs fpath = Inr a" by (simp add: main2d_def)
  with s a show ?thesis by simp
qed

theorem schema_round_trip_witness:
  "give_Me_input2d_Parameters py_float full_fs (''/sims/run1'', ''input2d'') =
     Inr (full_params, ''/sims/run1/beam.vertex'') \<and> well_formed full_params \<and>
   (\<exists>a. main2d py_float full_fs (''/sims/run1'', ''input2d'') = Inr a \<and>
        schema_serialize a = full_params)"
  using schema_round_trip [OF full_fs_eval full_params_well_formed] full_fs_eval
    full_params_well_formed
  by blast




text \<open>
  C10. For every boolean-like slot whose value \<open>r\<close> lies strictly between 0 and 1, the
  flag stored is \<^verbatim>\<open>int(r) = 0\<close> and is false, although \<open>r\<close> is not zero: the truncation
  comes before any test of the flag.
\<close>

theorem fractional_flag_is_false:
  assumes "main2d_build name v = Inr a" and "(i, flag) \<in> set flag_slots"
    and "v ! i = Num r" and "0 < r" and "r < 1"
  shows "flag a = 0 \<and> \<not> py_bool (flag a)"
proof -
  from assms(4,5) have "\<lfloor>r\<rfloor> = 0" by linarith
  with assms(4) have "trunc0 r = 0" by (simp add: trunc0_def)
  with flag_slot_value [OF assms(1,2)] assms(3) show ?thesis
    by (simp add: py_bool_def)
qed

theorem fractional_flag_is_false_witness:
  "\<exists>a. main2d_build ''s'' half_flag_params = Inr a \<and>
     half_flag_params ! 9 = Num (1 / 2) \<and> (0::real) < 1 / 2 \<and> (1::real) / 2 < 1 \<and>
     springs (model a) = 0 \<and> \<not> py_bool (springs (model a))"
proof -
  obtain a where a: "main2d_build ''s'' half_flag_params = Inr a"
    using main2d_build_ok [OF _ half_flag_params_eval(2), of "''s''"]
      half_flag_params_eval(1)
    by auto
  have m: "(9, \<lambda>a. springs (model a)) \<in> set flag_slots"
    by (simp add: flag_slots_def)
  have "springs (model a) = 0 \<and> \<not> py_bool (springs (model a))"
    by (rule fractional_flag_is_false [OF a m half_flag_params_eval(3)]) simp_all
  with a half_flag_params_eval(3) show ?thesis by auto
qed

end
